theory Spec2Isabelle
  imports Complex_Main "HOL-Library.Word"
begin

section \<open>The wire representation (package tftypes)\<close>

text \<open>
  The collection types of \<^verbatim>\<open>types/basetypes\<close> consume wire values of the external
  package \<^verbatim>\<open>tftypes\<close>. That package is not part of the repository; the definitions of
  this section follow section 6 of the specification (a value carries an optional wire
  type descriptor, a determinacy state and, when applicable, a decodable ordered-list,
  unordered-list or string-keyed-map structure).
\<close>

datatype tftype =
    tftypes_String
  | tftypes_Number
  | tftypes_Bool
  | tftypes_List (ElementType: tftype)
  | tftypes_Set (ElementType: tftype)
  | tftypes_Map (ElementType: tftype)

text \<open>
  Modelled from the spec: the structural-kind checks \<^verbatim>\<open>Type.Is(tftypes.List{})\<close>,
  \<^verbatim>\<open>Is(tftypes.Set{})\<close> and \<^verbatim>\<open>Is(tftypes.Map{})\<close> of the wire type descriptor
  ("is this an ordered-list/unordered-list/map kind, ignoring element type").
\<close>

fun Is_List :: "tftype \<Rightarrow> bool" where
  "Is_List (tftypes_List _) = True"
| "Is_List _ = False"

fun Is_Set :: "tftype \<Rightarrow> bool" where
  "Is_Set (tftypes_Set _) = True"
| "Is_Set _ = False"

fun Is_Map :: "tftype \<Rightarrow> bool" where
  "Is_Map (tftypes_Map _) = True"
| "Is_Map _ = False"

text \<open>
  Modelled from the spec: the wire value. \<^verbatim>\<open>Type\<close> is the optional type descriptor
  (\<^verbatim>\<open>None\<close> is Go's \<^verbatim>\<open>nil\<close>); the payload is null, the unknown marker, a scalar, the
  decoded children of a list or set in decode order, or the decoded entries of a map
  (an association list: its order is the order in which the entries are iterated).
\<close>

datatype tfvalue = Value (Type: "tftype option") (payload: tfdata)
and tfdata =
    NullData
  | UnknownData
  | StringData string
  | NumberData rat
  | BoolData bool
  | SeqData "tfvalue list"
  | MapData "(string \<times> tfvalue) list"

text \<open>Modelled from the spec: \<^verbatim>\<open>Value.IsKnown\<close>, the value itself is not the unknown marker.\<close>

definition IsKnown :: "tfvalue \<Rightarrow> bool" where
  "IsKnown v = (payload v \<noteq> UnknownData)"

text \<open>Modelled from the spec: \<^verbatim>\<open>Value.IsNull\<close>.\<close>

definition IsNull :: "tfvalue \<Rightarrow> bool" where
  "IsNull v = (payload v = NullData)"

text \<open>
  Modelled from the spec: \<^verbatim>\<open>Value.IsFullyKnown\<close> (glossary: "every nested component is
  concretely resolved (no nested Unknown)").
\<close>

fun IsFullyKnown :: "tfvalue \<Rightarrow> bool" where
  "IsFullyKnown (Value t UnknownData) = False"
| "IsFullyKnown (Value t (SeqData vs)) = list_all IsFullyKnown vs"
| "IsFullyKnown (Value t (MapData kvs)) = list_all IsFullyKnown (map snd kvs)"
| "IsFullyKnown (Value t _) = True"

text \<open>
  Modelled from the spec: \<^verbatim>\<open>Value.Equal\<close> ("element equality is defined structurally on
  the wire representation").
\<close>

definition Value_Equal :: "tfvalue \<Rightarrow> tfvalue \<Rightarrow> bool" where
  "Value_Equal a b = (a = b)"

text \<open>The steps of a wire attribute path (\<^verbatim>\<open>tftypes.AttributePathStep\<close>).\<close>

datatype AttributePathStep =
    AttributeName string
  | ElementKeyString string
  | ElementKeyInt "64 word"
  | ElementKeyValue tfvalue

text \<open>
  Errors are values. \<^verbatim>\<open>NilElemType\<close> stands for the run-time panic of calling a method
  on a nil \<^verbatim>\<open>ElemType\<close>; the others are the \<^verbatim>\<open>fmt.Errorf\<close> results of the source, kept
  structured, the failure of \<^verbatim>\<open>Value.As\<close>, and the errors of element types outside this
  package.
\<close>

datatype error =
    NilElemType
  | CantUseAsValueOf string tfvalue tftype
  | CantUseAsMapValue tfvalue
  | AsError tfvalue
  | CannotApplyStep AttributePathStep string
  | ExpectedValue string tfvalue
  | ElemError string

text \<open>
  Modelled from the spec: \<^verbatim>\<open>Value.As\<close> into a slice of values (lists and sets) and into a
  string-keyed map of values; it fails when the payload has no such structure.
\<close>

definition As_slice :: "tfvalue \<Rightarrow> error + tfvalue list" where
  "As_slice v = (case payload v of SeqData vs \<Rightarrow> Inr vs | NullData \<Rightarrow> Inr [] | _ \<Rightarrow> Inl (AsError v))"

definition As_map :: "tfvalue \<Rightarrow> error + (string \<times> tfvalue) list" where
  "As_map v = (case payload v of MapData kvs \<Rightarrow> Inr kvs | NullData \<Rightarrow> Inr [] | _ \<Rightarrow> Inl (AsError v))"

section \<open>Types, values, paths and diagnostics of the framework\<close>

text \<open>
  An \<^verbatim>\<open>attr.Type\<close> interface value is one of the three collection types of this package,
  each with its \<^verbatim>\<open>ElemType\<close> field (\<^verbatim>\<open>None\<close> is a nil interface), or a type implemented
  elsewhere (\<^verbatim>\<open>OtherType\<close>), whose methods are supplied by the environment below.
\<close>

datatype 't attr_type =
    ListType (ElemType: "'t attr_type option")
  | MapType (ElemType: "'t attr_type option")
  | SetType (ElemType: "'t attr_type option")
  | OtherType 't

datatype ValueState = ValueStateNull | ValueStateUnknown | ValueStateKnown

text \<open>
  Modelled from the spec: the collection values (section 3: element type, state and, only
  when Known, the elements); \<^verbatim>\<open>OtherValue\<close> is a value of a type implemented elsewhere.
\<close>

datatype ('t, 'v) attr_value =
    ListValue "'t attr_type option" ValueState "('t, 'v) attr_value list"
  | MapValue "'t attr_type option" ValueState "(string \<times> ('t, 'v) attr_value) list"
  | SetValue "'t attr_type option" ValueState "('t, 'v) attr_value list"
  | OtherValue 'v

text \<open>
  Modelled from the spec: the constructors of the collection values, which are not in the
  files verified here. A Null or Unknown value carries no elements; the \<^verbatim>\<open>Must\<close>
  constructors build the Known value from the elements they are given (section 4.1:
  "Construct a Known value from the resulting ordered sequence"; section 3: the element
  types hold by construction).
\<close>

definition NewListNull :: "'t attr_type option \<Rightarrow> ('t, 'v) attr_value" where
  "NewListNull elementType = ListValue elementType ValueStateNull []"

definition NewListUnknown :: "'t attr_type option \<Rightarrow> ('t, 'v) attr_value" where
  "NewListUnknown elementType = ListValue elementType ValueStateUnknown []"

definition NewListValueMust :: "'t attr_type option \<Rightarrow> ('t, 'v) attr_value list \<Rightarrow> ('t, 'v) attr_value" where
  "NewListValueMust elementType elements = ListValue elementType ValueStateKnown elements"

definition NewMapNull :: "'t attr_type option \<Rightarrow> ('t, 'v) attr_value" where
  "NewMapNull elementType = MapValue elementType ValueStateNull []"

definition NewMapUnknown :: "'t attr_type option \<Rightarrow> ('t, 'v) attr_value" where
  "NewMapUnknown elementType = MapValue elementType ValueStateUnknown []"

definition NewMapValueMust :: "'t attr_type option \<Rightarrow> (string \<times> ('t, 'v) attr_value) list \<Rightarrow> ('t, 'v) attr_value" where
  "NewMapValueMust elementType elements = MapValue elementType ValueStateKnown elements"

definition NewSetNull :: "'t attr_type option \<Rightarrow> ('t, 'v) attr_value" where
  "NewSetNull elementType = SetValue elementType ValueStateNull []"

definition NewSetUnknown :: "'t attr_type option \<Rightarrow> ('t, 'v) attr_value" where
  "NewSetUnknown elementType = SetValue elementType ValueStateUnknown []"

definition NewSetValueMust :: "'t attr_type option \<Rightarrow> ('t, 'v) attr_value list \<Rightarrow> ('t, 'v) attr_value" where
  "NewSetValueMust elementType elements = SetValue elementType ValueStateKnown elements"

text \<open>
  Modelled from the spec: attribute paths of package \<^verbatim>\<open>path\<close> (the path-addressing
  protocol of section 2: a path is extended by one more step, an index, a key or an
  element value).
\<close>

datatype ('t, 'v) PathStep =
    PathStepAttributeName string
  | PathStepElementKeyInt int
  | PathStepElementKeyString string
  | PathStepElementKeyValue "('t, 'v) attr_value"

type_synonym ('t, 'v) Path = "('t, 'v) PathStep list"

definition AtListIndex :: "('t, 'v) Path \<Rightarrow> nat \<Rightarrow> ('t, 'v) Path" where
  "AtListIndex p index = p @ [PathStepElementKeyInt (int index)]"

definition AtMapKey :: "('t, 'v) Path \<Rightarrow> string \<Rightarrow> ('t, 'v) Path" where
  "AtMapKey p key = p @ [PathStepElementKeyString key]"

definition AtSetValue :: "('t, 'v) Path \<Rightarrow> ('t, 'v) attr_value \<Rightarrow> ('t, 'v) Path" where
  "AtSetValue p v = p @ [PathStepElementKeyValue v]"

text \<open>
  Modelled from the spec: diagnostics of package \<^verbatim>\<open>diag\<close> ("an external sink accepting
  structured error records"). A record has a severity, an optional attribute path, a
  summary and a detail; \<^verbatim>\<open>AddAttributeError\<close> and \<^verbatim>\<open>AddError\<close> hand one record to the
  sink. The sink is taken to keep every record it is handed, in the order received: the
  collection below is the sequence of records handed over.
\<close>

datatype Severity = SeverityError | SeverityWarning

datatype ('t, 'v) Diagnostic =
  Diagnostic Severity "('t, 'v) Path option" string string

type_synonym ('t, 'v) Diagnostics = "('t, 'v) Diagnostic list"

definition AddAttributeError ::
  "('t, 'v) Diagnostics \<Rightarrow> ('t, 'v) Path \<Rightarrow> string \<Rightarrow> string \<Rightarrow> ('t, 'v) Diagnostics" where
  "AddAttributeError diags p summary detail = diags @ [Diagnostic SeverityError (Some p) summary detail]"

definition AddError :: "('t, 'v) Diagnostics \<Rightarrow> string \<Rightarrow> string \<Rightarrow> ('t, 'v) Diagnostics" where
  "AddError diags summary detail = diags @ [Diagnostic SeverityError None summary detail]"

text \<open>
  The environment: the methods of the \<^verbatim>\<open>attr.Type\<close> implementations outside this package
  (\<^verbatim>\<open>other_Validate\<close> is \<^verbatim>\<open>None\<close> for a type that does not implement
  \<^verbatim>\<open>xattr.TypeWithValidate\<close>), and the text renderings \<^verbatim>\<open>Value.String\<close>,
  \<^verbatim>\<open>error.Error\<close> that the messages of the source embed.
\<close>

record ('t, 'v) env =
  other_TerraformType :: "'t \<Rightarrow> tftype"
  other_ValueFromTerraform :: "'t \<Rightarrow> tfvalue \<Rightarrow> error + ('t, 'v) attr_value"
  other_Equal :: "'t \<Rightarrow> 't attr_type option \<Rightarrow> bool"
  other_String :: "'t \<Rightarrow> string"
  other_Validate :: "'t \<Rightarrow> (tfvalue \<Rightarrow> ('t, 'v) Path \<Rightarrow> ('t, 'v) Diagnostics) option"
  Value_String :: "tfvalue \<Rightarrow> string"
  Error_String :: "error \<Rightarrow> string"

section \<open>ListType, MapType and SetType\<close>

text \<open>
  \<^verbatim>\<open>TerraformType\<close>: the wire type of a type. The clause of each collection type is its
  method in the source; a nil \<^verbatim>\<open>ElemType\<close> panics.
\<close>

fun TerraformType :: "('t, 'v) env \<Rightarrow> 't attr_type \<Rightarrow> error + tftype" where
  "TerraformType env (ListType elemType) =
     (case elemType of None \<Rightarrow> Inl NilElemType
      | Some e \<Rightarrow> (case TerraformType env e of Inl err \<Rightarrow> Inl err | Inr t \<Rightarrow> Inr (tftypes_List t)))"
| "TerraformType env (SetType elemType) =
     (case elemType of None \<Rightarrow> Inl NilElemType
      | Some e \<Rightarrow> (case TerraformType env e of Inl err \<Rightarrow> Inl err | Inr t \<Rightarrow> Inr (tftypes_Set t)))"
| "TerraformType env (MapType elemType) =
     (case elemType of None \<Rightarrow> Inl NilElemType
      | Some e \<Rightarrow> (case TerraformType env e of Inl err \<Rightarrow> Inl err | Inr t \<Rightarrow> Inr (tftypes_Map t)))"
| "TerraformType env (OtherType t) = Inr (other_TerraformType env t)"

text \<open>
  \<^verbatim>\<open>Equal\<close>: false for a nil \<^verbatim>\<open>ElemType\<close>, false when the other type is not of the same
  collection type (the failed type assertion), the element type's \<^verbatim>\<open>Equal\<close> otherwise.
\<close>

fun Equal :: "('t, 'v) env \<Rightarrow> 't attr_type \<Rightarrow> 't attr_type option \<Rightarrow> bool" where
  "Equal env (ListType elemType) other =
     (case elemType of None \<Rightarrow> False
      | Some e \<Rightarrow> (case other of Some (ListType otherElemType) \<Rightarrow> Equal env e otherElemType | _ \<Rightarrow> False))"
| "Equal env (MapType elemType) other =
     (case elemType of None \<Rightarrow> False
      | Some e \<Rightarrow> (case other of Some (MapType otherElemType) \<Rightarrow> Equal env e otherElemType | _ \<Rightarrow> False))"
| "Equal env (SetType elemType) other =
     (case elemType of None \<Rightarrow> False
      | Some e \<Rightarrow> (case other of Some (SetType otherElemType) \<Rightarrow> Equal env e otherElemType | _ \<Rightarrow> False))"
| "Equal env (OtherType t) other = other_Equal env t other"

text \<open>\<^verbatim>\<open>ApplyTerraform5AttributePathStep\<close> of the three collection types.\<close>

definition ListType_ApplyTerraform5AttributePathStep ::
  "'t attr_type option \<Rightarrow> AttributePathStep \<Rightarrow> error + 't attr_type option" where
  "ListType_ApplyTerraform5AttributePathStep elemType step =
     (case step of ElementKeyInt _ \<Rightarrow> Inr elemType
      | _ \<Rightarrow> Inl (CannotApplyStep step ''ListType''))"

definition MapType_ApplyTerraform5AttributePathStep ::
  "'t attr_type option \<Rightarrow> AttributePathStep \<Rightarrow> error + 't attr_type option" where
  "MapType_ApplyTerraform5AttributePathStep elemType step =
     (case step of ElementKeyString _ \<Rightarrow> Inr elemType
      | _ \<Rightarrow> Inl (CannotApplyStep step ''MapType''))"

definition SetType_ApplyTerraform5AttributePathStep ::
  "'t attr_type option \<Rightarrow> AttributePathStep \<Rightarrow> error + 't attr_type option" where
  "SetType_ApplyTerraform5AttributePathStep elemType step =
     (case step of ElementKeyValue _ \<Rightarrow> Inr elemType
      | _ \<Rightarrow> Inl (CannotApplyStep step ''SetType''))"

text \<open>\<^verbatim>\<open>String\<close>: the human-friendly name; a nil \<^verbatim>\<open>ElemType\<close> panics.\<close>

fun TypeString :: "('t, 'v) env \<Rightarrow> 't attr_type \<Rightarrow> error + string" where
  "TypeString env (ListType elemType) =
     (case elemType of None \<Rightarrow> Inl NilElemType
      | Some e \<Rightarrow> (case TypeString env e of Inl err \<Rightarrow> Inl err
                   | Inr s \<Rightarrow> Inr (''types.ListType['' @ s @ '']'')))"
| "TypeString env (MapType elemType) =
     (case elemType of None \<Rightarrow> Inl NilElemType
      | Some e \<Rightarrow> (case TypeString env e of Inl err \<Rightarrow> Inl err
                   | Inr s \<Rightarrow> Inr (''types.MapType['' @ s @ '']'')))"
| "TypeString env (SetType elemType) =
     (case elemType of None \<Rightarrow> Inl NilElemType
      | Some e \<Rightarrow> (case TypeString env e of Inl err \<Rightarrow> Inl err
                   | Inr s \<Rightarrow> Inr (''types.SetType['' @ s @ '']'')))"
| "TypeString env (OtherType t) = Inr (other_String env t)"

text \<open>
  \<^verbatim>\<open>ValueFromTerraform\<close>. The element loops of the three methods come first: each
  converts the children in decode order with the element type's conversion \<^verbatim>\<open>conv\<close>,
  returns the first error, and otherwise appends to \<^verbatim>\<open>elems\<close> (for a map: stores under
  the key).
\<close>

fun convert_elems ::
  "(tfvalue \<Rightarrow> error + 'a) \<Rightarrow> tfvalue list \<Rightarrow> 'a list \<Rightarrow> error + 'a list" where
  "convert_elems conv [] elems = Inr elems"
| "convert_elems conv (elem # val) elems =
     (case conv elem of Inl err \<Rightarrow> Inl err
      | Inr av \<Rightarrow> convert_elems conv val (elems @ [av]))"

fun map_store :: "string \<Rightarrow> 'a \<Rightarrow> (string \<times> 'a) list \<Rightarrow> (string \<times> 'a) list" where
  "map_store key av [] = [(key, av)]"
| "map_store key av (kv # elems) =
     (if fst kv = key then (key, av) # elems else kv # map_store key av elems)"

fun convert_entries ::
  "(tfvalue \<Rightarrow> error + 'a) \<Rightarrow> (string \<times> tfvalue) list \<Rightarrow> (string \<times> 'a) list \<Rightarrow> error + (string \<times> 'a) list" where
  "convert_entries conv [] elems = Inr elems"
| "convert_entries conv (kv # val) elems =
     (case conv (snd kv) of Inl err \<Rightarrow> Inl err
      | Inr av \<Rightarrow> convert_entries conv val (map_store (fst kv) av elems))"

fun ValueFromTerraform ::
  "('t, 'v) env \<Rightarrow> 't attr_type \<Rightarrow> tfvalue \<Rightarrow> error + ('t, 'v) attr_value" where
  "ValueFromTerraform env (ListType elemType) inp =
     (if Type inp = None then Inr (NewListNull elemType)
      else (case elemType of None \<Rightarrow> Inl NilElemType
      | Some e \<Rightarrow>
        (case TerraformType env e of Inl err \<Rightarrow> Inl err
         | Inr et \<Rightarrow>
           if Type inp \<noteq> Some (tftypes_List et) then Inl (CantUseAsValueOf ''List'' inp et)
           else if \<not> IsKnown inp then Inr (NewListUnknown elemType)
           else if IsNull inp then Inr (NewListNull elemType)
           else (case As_slice inp of Inl err \<Rightarrow> Inl err
                 | Inr val \<Rightarrow>
                   (case convert_elems (\<lambda>elem. ValueFromTerraform env e elem) val [] of
                      Inl err \<Rightarrow> Inl err
                    | Inr elems \<Rightarrow> Inr (NewListValueMust elemType elems))))))"
| "ValueFromTerraform env (MapType elemType) inp =
     (case Type inp of None \<Rightarrow> Inr (NewMapNull elemType)
      | Some t \<Rightarrow>
        if \<not> Is_Map t then Inl (CantUseAsMapValue inp)
        else (case elemType of None \<Rightarrow> Inl NilElemType
        | Some e \<Rightarrow>
          (case TerraformType env e of Inl err \<Rightarrow> Inl err
           | Inr et \<Rightarrow>
             if t \<noteq> tftypes_Map et then Inl (CantUseAsValueOf ''Map'' inp et)
             else if \<not> IsKnown inp then Inr (NewMapUnknown elemType)
             else if IsNull inp then Inr (NewMapNull elemType)
             else (case As_map inp of Inl err \<Rightarrow> Inl err
                   | Inr val \<Rightarrow>
                     (case convert_entries (\<lambda>elem. ValueFromTerraform env e elem) val [] of
                        Inl err \<Rightarrow> Inl err
                      | Inr elems \<Rightarrow> Inr (NewMapValueMust elemType elems))))))"
| "ValueFromTerraform env (SetType elemType) inp =
     (if Type inp = None then Inr (NewSetNull elemType)
      else (case elemType of None \<Rightarrow> Inl NilElemType
      | Some e \<Rightarrow>
        (case TerraformType env e of Inl err \<Rightarrow> Inl err
         | Inr et \<Rightarrow>
           if Type inp \<noteq> Some (tftypes_Set et) then Inl (CantUseAsValueOf ''Set'' inp et)
           else if \<not> IsKnown inp then Inr (NewSetUnknown elemType)
           else if IsNull inp then Inr (NewSetNull elemType)
           else (case As_slice inp of Inl err \<Rightarrow> Inl err
                 | Inr val \<Rightarrow>
                   (case convert_elems (\<lambda>elem. ValueFromTerraform env e elem) val [] of
                      Inl err \<Rightarrow> Inl err
                    | Inr elems \<Rightarrow> Inr (NewSetValueMust elemType elems))))))"
| "ValueFromTerraform env (OtherType t) inp = other_ValueFromTerraform env t inp"

text \<open>
  \<^verbatim>\<open>Validate\<close>. \<^verbatim>\<open>isValidatable\<close> is the type assertion of a non-nil element type to
  \<^verbatim>\<open>xattr.TypeWithValidate\<close>: the three collection types have the method, another type
  has it when the environment says so.
\<close>

definition isValidatable :: "('t, 'v) env \<Rightarrow> 't attr_type \<Rightarrow> bool" where
  "isValidatable env e = (case e of OtherType t \<Rightarrow> other_Validate env t \<noteq> None | _ \<Rightarrow> True)"

definition unexpected_error_detail :: string where
  "unexpected_error_detail =
     ''An unexpected error was encountered trying to validate an attribute value. This is always an error in the provider. Please report the following to the provider developer:''
     @ [CHR 0x0A, CHR 0x0A]"

text \<open>The element loop of \<^verbatim>\<open>ListType.Validate\<close>; \<^verbatim>\<open>index\<close> is the loop index.\<close>

fun ListType_validate_elems ::
  "(tfvalue \<Rightarrow> ('t, 'v) Path \<Rightarrow> ('t, 'v) Diagnostics) \<Rightarrow> ('t, 'v) Path \<Rightarrow> tfvalue list \<Rightarrow> nat
     \<Rightarrow> ('t, 'v) Diagnostics \<Rightarrow> ('t, 'v) Diagnostics" where
  "ListType_validate_elems validate path [] index diags = diags"
| "ListType_validate_elems validate path (elem # elems) index diags =
     (if \<not> IsFullyKnown elem then ListType_validate_elems validate path elems (Suc index) diags
      else ListType_validate_elems validate path elems (Suc index)
             (diags @ validate elem (AtListIndex path index)))"

text \<open>The element loop of \<^verbatim>\<open>MapType.Validate\<close>, over the entries in iteration order.\<close>

fun MapType_validate_elems ::
  "(tfvalue \<Rightarrow> ('t, 'v) Path \<Rightarrow> ('t, 'v) Diagnostics) \<Rightarrow> ('t, 'v) Path \<Rightarrow> (string \<times> tfvalue) list
     \<Rightarrow> ('t, 'v) Diagnostics \<Rightarrow> ('t, 'v) Diagnostics" where
  "MapType_validate_elems validate path [] diags = diags"
| "MapType_validate_elems validate path (kv # elems) diags =
     (if \<not> IsFullyKnown (snd kv) then MapType_validate_elems validate path elems diags
      else MapType_validate_elems validate path elems
             (diags @ validate (snd kv) (AtMapKey path (fst kv))))"

text \<open>
  The inner loop of \<^verbatim>\<open>SetType.Validate\<close>: \<^verbatim>\<open>rest\<close> are the children at the indices after
  the outer one, in order; each one equal to \<^verbatim>\<open>elemOuter\<close> adds a diagnostic.
\<close>

fun SetType_duplicates ::
  "('t, 'v) env \<Rightarrow> ('t, 'v) Path \<Rightarrow> tfvalue \<Rightarrow> tfvalue list \<Rightarrow> ('t, 'v) Diagnostics \<Rightarrow> ('t, 'v) Diagnostics" where
  "SetType_duplicates env path elemOuter [] diags = diags"
| "SetType_duplicates env path elemOuter (elemInner # rest) diags =
     (if \<not> Value_Equal elemInner elemOuter then SetType_duplicates env path elemOuter rest diags
      else SetType_duplicates env path elemOuter rest
             (AddAttributeError diags path ''Duplicate Set Element''
                (''This attribute contains duplicate values of: '' @ Value_String env elemInner)))"

text \<open>
  The outer loop of \<^verbatim>\<open>SetType.Validate\<close>. \<^verbatim>\<open>validatableType\<close> is the result of the type
  assertion (\<^verbatim>\<open>None\<close> when it fails), \<^verbatim>\<open>conv\<close> is the element type's
  \<^verbatim>\<open>ValueFromTerraform\<close>. A conversion error adds one diagnostic and returns.
\<close>

fun SetType_validate_elems ::
  "('t, 'v) env \<Rightarrow> (tfvalue \<Rightarrow> ('t, 'v) Path \<Rightarrow> ('t, 'v) Diagnostics) option
     \<Rightarrow> (tfvalue \<Rightarrow> error + ('t, 'v) attr_value) \<Rightarrow> ('t, 'v) Path \<Rightarrow> tfvalue list
     \<Rightarrow> ('t, 'v) Diagnostics \<Rightarrow> ('t, 'v) Diagnostics" where
  "SetType_validate_elems env validatableType conv path [] diags = diags"
| "SetType_validate_elems env validatableType conv path (elemOuter # rest) diags =
     (if \<not> IsFullyKnown elemOuter then SetType_validate_elems env validatableType conv path rest diags
      else (case validatableType of
        None \<Rightarrow>
          SetType_validate_elems env validatableType conv path rest
            (SetType_duplicates env path elemOuter rest diags)
      | Some validate \<Rightarrow>
          (case conv elemOuter of
             Inl err \<Rightarrow>
               AddAttributeError diags path ''Set Type Validation Error''
                 (unexpected_error_detail @ Error_String env err)
           | Inr elemValue \<Rightarrow>
               SetType_validate_elems env validatableType conv path rest
                 (SetType_duplicates env path elemOuter rest
                    (diags @ validate elemOuter (AtSetValue path elemValue))))))"

fun Validate ::
  "('t, 'v) env \<Rightarrow> 't attr_type \<Rightarrow> tfvalue \<Rightarrow> ('t, 'v) Path \<Rightarrow> ('t, 'v) Diagnostics" where
  "Validate env (ListType elemType) inp path =
     (case Type inp of None \<Rightarrow> []
      | Some t \<Rightarrow>
        if \<not> Is_List t then
          AddAttributeError [] path ''List Type Validation Error''
            (unexpected_error_detail @ Error_String env (ExpectedValue ''List'' inp))
        else if \<not> IsKnown inp \<or> IsNull inp then []
        else (case As_slice inp of
                Inl err \<Rightarrow>
                  AddAttributeError [] path ''List Type Validation Error''
                    (unexpected_error_detail @ Error_String env err)
              | Inr elems \<Rightarrow>
                  (case elemType of None \<Rightarrow> []
                   | Some e \<Rightarrow>
                     if \<not> isValidatable env e then []
                     else ListType_validate_elems (\<lambda>elem p. Validate env e elem p) path elems 0 [])))"
| "Validate env (MapType elemType) inp path =
     (case Type inp of None \<Rightarrow> []
      | Some t \<Rightarrow>
        if \<not> Is_Map t then
          AddAttributeError [] path ''Map Type Validation Error''
            (unexpected_error_detail @ Error_String env (ExpectedValue ''Map'' inp))
        else if \<not> IsKnown inp \<or> IsNull inp then []
        else (case As_map inp of
                Inl err \<Rightarrow>
                  AddAttributeError [] path ''Map Type Validation Error''
                    (unexpected_error_detail @ Error_String env err)
              | Inr elems \<Rightarrow>
                  (case elemType of None \<Rightarrow> []
                   | Some e \<Rightarrow>
                     if \<not> isValidatable env e then []
                     else MapType_validate_elems (\<lambda>elem p. Validate env e elem p) path elems [])))"
| "Validate env (SetType elemType) inp path =
     (case Type inp of None \<Rightarrow> []
      | Some t \<Rightarrow>
        if \<not> Is_Set t then
          AddAttributeError [] path ''Set Type Validation Error''
            (unexpected_error_detail @ Error_String env (ExpectedValue ''Set'' inp))
        else if \<not> IsKnown inp \<or> IsNull inp then []
        else (case As_slice inp of
                Inl err \<Rightarrow>
                  AddAttributeError [] path ''Set Type Validation Error''
                    (unexpected_error_detail @ Error_String env err)
              | Inr elems \<Rightarrow>
                  (case elemType of
                     None \<Rightarrow> SetType_validate_elems env None (\<lambda>elem. Inl NilElemType) path elems []
                   | Some e \<Rightarrow>
                       SetType_validate_elems env
                         (if isValidatable env e then Some (\<lambda>elem p. Validate env e elem p) else None)
                         (\<lambda>elem. ValueFromTerraform env e elem) path elems [])))"
| "Validate env (OtherType t) inp path =
     (case other_Validate env t of None \<Rightarrow> [] | Some validate \<Rightarrow> validate inp path)"

section \<open>PlanResourceChangeRequest (package fromproto5)\<close>

text \<open>
  The request and schema types of the protocol and server packages are opaque here. The
  conversions \<^verbatim>\<open>Config\<close>, \<^verbatim>\<open>State\<close>, \<^verbatim>\<open>Plan\<close> and \<^verbatim>\<open>ProviderMeta\<close> of the same package
  are parameters (\<^verbatim>\<open>fromproto5_funcs\<close>); a pointer is an option.
\<close>

typedecl DynamicValue
typedecl Schema
typedecl ResourceType
typedecl tfsdk_Config
typedecl tfsdk_State
typedecl tfsdk_Plan

record tfprotov5_PlanResourceChangeRequest =
  proto_PriorPrivate :: "8 word list"
  proto_Config :: "DynamicValue option"
  proto_PriorState :: "DynamicValue option"
  proto_ProposedNewState :: "DynamicValue option"
  proto_ProviderMeta :: "DynamicValue option"

record fwserver_PlanResourceChangeRequest =
  PriorPrivate :: "8 word list"
  ResourceSchema :: Schema
  ResourceType :: ResourceType
  Config :: "tfsdk_Config option"
  PriorState :: "tfsdk_State option"
  ProposedNewState :: "tfsdk_Plan option"
  ProviderMeta :: "tfsdk_Config option"

record ('t, 'v) fromproto5_funcs =
  Config_from :: "DynamicValue option \<Rightarrow> Schema option \<Rightarrow> tfsdk_Config option \<times> ('t, 'v) Diagnostics"
  State_from :: "DynamicValue option \<Rightarrow> Schema option \<Rightarrow> tfsdk_State option \<times> ('t, 'v) Diagnostics"
  Plan_from :: "DynamicValue option \<Rightarrow> Schema option \<Rightarrow> tfsdk_Plan option \<times> ('t, 'v) Diagnostics"
  ProviderMeta_from :: "DynamicValue option \<Rightarrow> Schema option \<Rightarrow> tfsdk_Config option \<times> ('t, 'v) Diagnostics"

text \<open>Modelled from the spec: \<^verbatim>\<open>Diagnostics.Append\<close> hands each given record to the sink.\<close>

definition Append :: "('t, 'v) Diagnostics \<Rightarrow> ('t, 'v) Diagnostics \<Rightarrow> ('t, 'v) Diagnostics" where
  "Append diags new = diags @ new"

definition missing_schema_detail :: string where
  "missing_schema_detail =
     ''An unexpected error was encountered when handling the request. ''
     @ ''This is always an issue in the Terraform Provider SDK used to implement the provider and should be reported to the provider developers.''
     @ [CHR 0x0A, CHR 0x0A]
     @ ''Please report this to the provider developer:''
     @ [CHR 0x0A, CHR 0x0A]
     @ ''Missing schema.''"

definition PlanResourceChangeRequest ::
  "('t, 'v) fromproto5_funcs \<Rightarrow> tfprotov5_PlanResourceChangeRequest option \<Rightarrow> ResourceType
     \<Rightarrow> Schema option \<Rightarrow> Schema option
     \<Rightarrow> fwserver_PlanResourceChangeRequest option \<times> ('t, 'v) Diagnostics" where
  "PlanResourceChangeRequest fns proto5 resourceType resourceSchema providerMetaSchema =
     (case proto5 of None \<Rightarrow> (None, [])
      | Some proto \<Rightarrow>
        (case resourceSchema of
           None \<Rightarrow> (None, AddError [] ''Missing Resource Schema'' missing_schema_detail)
         | Some schema \<Rightarrow>
             (let (config, configDiags) = Config_from fns (proto_Config proto) resourceSchema;
                  diags = Append [] configDiags;
                  (priorState, priorStateDiags) = State_from fns (proto_PriorState proto) resourceSchema;
                  diags = Append diags priorStateDiags;
                  (proposedNewState, proposedNewStateDiags) =
                     Plan_from fns (proto_ProposedNewState proto) resourceSchema;
                  diags = Append diags proposedNewStateDiags;
                  (providerMeta, providerMetaDiags) =
                     ProviderMeta_from fns (proto_ProviderMeta proto) providerMetaSchema;
                  diags = Append diags providerMetaDiags
              in (Some \<lparr> PriorPrivate = proto_PriorPrivate proto,
                          ResourceSchema = schema,
                          ResourceType = resourceType,
                          Config = config,
                          PriorState = priorState,
                          ProposedNewState = proposedNewState,
                          ProviderMeta = providerMeta \<rparr>, diags))))"

section \<open>Two element types for closed instances\<close>

text \<open>
  The scalar types live outside the files verified here. For evaluating the methods at
  concrete inputs the environment \<^verbatim>\<open>example_env\<close> supplies two element types over wire
  strings: \<^verbatim>\<open>StringType\<close>, which converts every string and has no \<^verbatim>\<open>Validate\<close> method, and
  \<^verbatim>\<open>CheckedType\<close>, a custom type that implements \<^verbatim>\<open>xattr.TypeWithValidate\<close> (it reports the
  empty string) and whose conversion rejects the string \<^verbatim>\<open>bad\<close>.
\<close>

datatype example_type = StringType | CheckedType

datatype example_value = StringValue ValueState string

definition example_ValueFromTerraform ::
  "example_type \<Rightarrow> tfvalue \<Rightarrow> error + (example_type, example_value) attr_value" where
  "example_ValueFromTerraform t v =
     (case payload v of
        UnknownData \<Rightarrow> Inr (OtherValue (StringValue ValueStateUnknown []))
      | NullData \<Rightarrow> Inr (OtherValue (StringValue ValueStateNull []))
      | StringData s \<Rightarrow>
          if t = CheckedType \<and> s = ''bad'' then Inl (ElemError ''bad value'')
          else Inr (OtherValue (StringValue ValueStateKnown s))
      | _ \<Rightarrow> Inl (AsError v))"

definition example_Validate ::
  "example_type \<Rightarrow> (tfvalue \<Rightarrow> (example_type, example_value) Path
     \<Rightarrow> (example_type, example_value) Diagnostics) option" where
  "example_Validate t =
     (case t of StringType \<Rightarrow> None
      | CheckedType \<Rightarrow>
          Some (\<lambda>v p. if payload v = StringData [] then [Diagnostic SeverityError (Some p) ''Empty Value'' ''empty'']
                      else []))"

definition example_Value_String :: "tfvalue \<Rightarrow> string" where
  "example_Value_String v = (case payload v of StringData s \<Rightarrow> s | _ \<Rightarrow> ''?'')"

definition example_env :: "(example_type, example_value) env" where
  "example_env =
     \<lparr> other_TerraformType = (\<lambda>t. tftypes_String),
       other_ValueFromTerraform = example_ValueFromTerraform,
       other_Equal = (\<lambda>t other. other = Some (OtherType t)),
       other_String = (\<lambda>t. case t of StringType \<Rightarrow> ''StringType'' | CheckedType \<Rightarrow> ''CheckedType''),
       other_Validate = example_Validate,
       Value_String = example_Value_String,
       Error_String = (\<lambda>err. ''error'') \<rparr>"

definition str :: "string \<Rightarrow> tfvalue" where
  "str s = Value (Some tftypes_String) (StringData s)"

definition unknown_str :: tfvalue where
  "unknown_str = Value (Some tftypes_String) UnknownData"

definition set_of_str :: "tfvalue list \<Rightarrow> tfvalue" where
  "set_of_str vs = Value (Some (tftypes_Set tftypes_String)) (SeqData vs)"

definition list_of_str :: "tfvalue list \<Rightarrow> tfvalue" where
  "list_of_str vs = Value (Some (tftypes_List tftypes_String)) (SeqData vs)"

definition map_of_str :: "(string \<times> tfvalue) list \<Rightarrow> tfvalue" where
  "map_of_str kvs = Value (Some (tftypes_Map tftypes_String)) (MapData kvs)"

definition test_path :: "(example_type, example_value) Path" where
  "test_path = [PathStepAttributeName ''test'']"

section \<open>What the set validation accumulates\<close>

text \<open>
  The record that the duplicate scan of \<^verbatim>\<open>SetType.Validate\<close> hands to the sink for a
  value \<^verbatim>\<open>v\<close>: an error at the path given to \<^verbatim>\<open>Validate\<close>, naming \<^verbatim>\<open>v\<close>.
\<close>

definition duplicate_diagnostic :: "('t, 'v) env \<Rightarrow> ('t, 'v) Path \<Rightarrow> tfvalue \<Rightarrow> ('t, 'v) Diagnostic" where
  "duplicate_diagnostic env path v =
     Diagnostic SeverityError (Some path) ''Duplicate Set Element''
       (''This attribute contains duplicate values of: '' @ Value_String env v)"

text \<open>
  A diagnostic is a duplicate-element error naming \<^verbatim>\<open>v\<close>, at whatever path.
\<close>

definition is_duplicate_error :: "('t, 'v) env \<Rightarrow> tfvalue \<Rightarrow> ('t, 'v) Diagnostic \<Rightarrow> bool" where
  "is_duplicate_error env v d =
     (case d of Diagnostic severity p summary detail \<Rightarrow>
        severity = SeverityError \<and> summary = ''Duplicate Set Element''
        \<and> detail = ''This attribute contains duplicate values of: '' @ Value_String env v)"


section \<open>Type equality, path steps and names\<close>

text \<open>
  C4. For each shape and every non-nil element type E1, the type Shape{E1} equals another
  type exactly when the other type is of the same shape, Shape{E2}, and E1.Equal(E2)
  holds; a collection type whose element type is nil equals nothing, itself included.
\<close>

theorem collection_type_Equal:
  "(Equal env (ListType (Some e1)) other = (\<exists>e2. other = Some (ListType e2) \<and> Equal env e1 e2))
   \<and> (Equal env (MapType (Some e1)) other = (\<exists>e2. other = Some (MapType e2) \<and> Equal env e1 e2))
   \<and> (Equal env (SetType (Some e1)) other = (\<exists>e2. other = Some (SetType e2) \<and> Equal env e1 e2))
   \<and> \<not> Equal env (ListType None) other
   \<and> \<not> Equal env (MapType None) other
   \<and> \<not> Equal env (SetType None) other"
  by (auto split: option.splits attr_type.splits)

text \<open>
  C6. ListType.ApplyTerraform5AttributePathStep returns the element type for every
  integer-index step and an error for each other kind of step; MapType returns it for
  string-key steps only, SetType for element-value steps only.
\<close>

theorem ApplyTerraform5AttributePathStep_kinds:
  "ListType_ApplyTerraform5AttributePathStep elemType (ElementKeyInt i) = Inr elemType
   \<and> isl (ListType_ApplyTerraform5AttributePathStep elemType (AttributeName n))
   \<and> isl (ListType_ApplyTerraform5AttributePathStep elemType (ElementKeyString k))
   \<and> isl (ListType_ApplyTerraform5AttributePathStep elemType (ElementKeyValue v))
   \<and> MapType_ApplyTerraform5AttributePathStep elemType (ElementKeyString k) = Inr elemType
   \<and> isl (MapType_ApplyTerraform5AttributePathStep elemType (AttributeName n))
   \<and> isl (MapType_ApplyTerraform5AttributePathStep elemType (ElementKeyInt i))
   \<and> isl (MapType_ApplyTerraform5AttributePathStep elemType (ElementKeyValue v))
   \<and> SetType_ApplyTerraform5AttributePathStep elemType (ElementKeyValue v) = Inr elemType
   \<and> isl (SetType_ApplyTerraform5AttributePathStep elemType (AttributeName n))
   \<and> isl (SetType_ApplyTerraform5AttributePathStep elemType (ElementKeyInt i))
   \<and> isl (SetType_ApplyTerraform5AttributePathStep elemType (ElementKeyString k))"
  by (simp add: ListType_ApplyTerraform5AttributePathStep_def
      MapType_ApplyTerraform5AttributePathStep_def SetType_ApplyTerraform5AttributePathStep_def)

text \<open>
  C7, as amended. For a non-nil element type whose String() returns s, the String() of the
  list, map and set type is the text types.ListType[s], types.MapType[s] and
  types.SetType[s]: the name carries the prefix "types.".
\<close>

theorem TypeString_format:
  assumes "TypeString env e = Inr s"
  shows "TypeString env (ListType (Some e)) = Inr (''types.ListType['' @ s @ '']'')
    \<and> TypeString env (MapType (Some e)) = Inr (''types.MapType['' @ s @ '']'')
    \<and> TypeString env (SetType (Some e)) = Inr (''types.SetType['' @ s @ '']'')"
  using assms by simp

theorem TypeString_format_witness:
  "TypeString example_env (OtherType StringType) = Inr ''StringType''
   \<and> TypeString example_env (ListType (Some (OtherType StringType))) = Inr ''types.ListType[StringType]''
   \<and> TypeString example_env (MapType (Some (OtherType StringType))) = Inr ''types.MapType[StringType]''
   \<and> TypeString example_env (SetType (Some (OtherType StringType))) = Inr ''types.SetType[StringType]''"
proof -
  have h: "TypeString example_env (OtherType StringType) = Inr ''StringType''"
    by (simp add: example_env_def)
  show ?thesis using h TypeString_format [OF h] by simp
qed

text \<open>
  The claim as stated fails: the name of a list of strings is not ListType[StringType].
\<close>

theorem TypeString_format_counterexample:
  "TypeString example_env (ListType (Some (OtherType StringType))) = Inr ''types.ListType[StringType]''
   \<and> TypeString example_env (ListType (Some (OtherType StringType))) \<noteq> Inr ''ListType[StringType]''"
  by (simp add: example_env_def)

text \<open>
  C10. With a nil protocol request, PlanResourceChangeRequest returns a nil framework
  request and nil diagnostics, whatever the resource type, the resource schema, the
  provider meta schema and the conversions of the package are.
\<close>

theorem PlanResourceChangeRequest_nil:
  "PlanResourceChangeRequest fns None resourceType resourceSchema providerMetaSchema = (None, [])"
  by (simp add: PlanResourceChangeRequest_def)

lemmas example_simps =
  example_env_def example_ValueFromTerraform_def example_Validate_def example_Value_String_def
  str_def unknown_str_def set_of_str_def list_of_str_def map_of_str_def test_path_def
  isValidatable_def IsKnown_def IsNull_def As_slice_def As_map_def Value_Equal_def
  AddAttributeError_def AtListIndex_def AtMapKey_def AtSetValue_def
  NewListNull_def NewListUnknown_def NewListValueMust_def
  NewMapNull_def NewMapUnknown_def NewMapValueMust_def
  NewSetNull_def NewSetUnknown_def NewSetValueMust_def

section \<open>Conversion from the wire\<close>

lemma convert_elems_all:
  "(\<forall>x \<in> set val. \<not> isl (conv x)) \<Longrightarrow>
   convert_elems conv val elems = Inr (elems @ map (\<lambda>x. projr (conv x)) val)"
proof (induction val arbitrary: elems)
  case Nil
  then show ?case by simp
next
  case (Cons elem val)
  from Cons.prems obtain av where av: "conv elem = Inr av"
    by (cases "conv elem") auto
  with Cons show ?case by simp
qed

lemma convert_elems_first_error:
  "i < length val \<Longrightarrow> isl (conv (val ! i)) \<Longrightarrow> (\<forall>j < i. \<not> isl (conv (val ! j))) \<Longrightarrow>
   convert_elems conv val elems = Inl (projl (conv (val ! i)))"
proof (induction val arbitrary: i elems)
  case Nil
  then show ?case by simp
next
  case (Cons elem val)
  show ?case
  proof (cases i)
    case 0
    with Cons.prems obtain err where "conv elem = Inl err"
      by (cases "conv elem") auto
    with 0 show ?thesis by simp
  next
    case (Suc k)
    with Cons.prems have "\<not> isl (conv elem)" by auto
    then obtain av where av: "conv elem = Inr av"
      by (cases "conv elem") auto
    from Suc Cons.prems have "\<forall>j < k. \<not> isl (conv (val ! j))" by auto
    with Cons.IH [of k] Suc Cons.prems av show ?thesis by simp
  qed
qed

lemma map_store_fresh:
  "key \<notin> fst ` set elems \<Longrightarrow> map_store key av elems = elems @ [(key, av)]"
  by (induction elems) auto

lemma convert_entries_all:
  "(\<forall>kv \<in> set val. \<not> isl (conv (snd kv))) \<Longrightarrow> distinct (map fst elems @ map fst val) \<Longrightarrow>
   convert_entries conv val elems = Inr (elems @ map (\<lambda>kv. (fst kv, projr (conv (snd kv)))) val)"
proof (induction val arbitrary: elems)
  case Nil
  then show ?case by simp
next
  case (Cons kv val)
  from Cons.prems obtain av where av: "conv (snd kv) = Inr av"
    by (cases "conv (snd kv)") auto
  from Cons.prems have fresh: "fst kv \<notin> fst ` set elems" by auto
  from Cons.prems have "distinct (map fst (elems @ [(fst kv, av)]) @ map fst val)" by auto
  with Cons.IH [of "elems @ [(fst kv, av)]"] Cons.prems av fresh
  show ?case by (simp add: map_store_fresh)
qed

text \<open>
  C5. Let the wire value be a non-null list of matching type with children \<^verbatim>\<open>val\<close> (a
  fully known one in particular). If the element type's own conversion succeeds on every
  child, ListType.ValueFromTerraform returns the Known list of the converted children in
  the order of \<^verbatim>\<open>val\<close>. If child \<^verbatim>\<open>i\<close> is the first whose conversion fails, the
  result is that child's error and no value.
\<close>

theorem ListType_ValueFromTerraform_elements:
  assumes "TerraformType env e = Inr et"
    and "Type inp = Some (tftypes_List et)"
    and "payload inp = SeqData val"
  shows "((\<forall>x \<in> set val. \<not> isl (ValueFromTerraform env e x)) \<longrightarrow>
            ValueFromTerraform env (ListType (Some e)) inp =
              Inr (ListValue (Some e) ValueStateKnown (map (\<lambda>x. projr (ValueFromTerraform env e x)) val)))
       \<and> (\<forall>i < length val.
            isl (ValueFromTerraform env e (val ! i)) \<and> (\<forall>j < i. \<not> isl (ValueFromTerraform env e (val ! j))) \<longrightarrow>
            ValueFromTerraform env (ListType (Some e)) inp = Inl (projl (ValueFromTerraform env e (val ! i))))"
  using assms
  by (simp add: IsKnown_def IsNull_def As_slice_def NewListValueMust_def
      convert_elems_all convert_elems_first_error)

theorem ListType_ValueFromTerraform_elements_witness:
  "IsFullyKnown (list_of_str [str ''a'', str ''b'', str ''c''])
   \<and> ValueFromTerraform example_env (ListType (Some (OtherType StringType)))
       (list_of_str [str ''a'', str ''b'', str ''c'']) =
     Inr (ListValue (Some (OtherType StringType)) ValueStateKnown
           [OtherValue (StringValue ValueStateKnown ''a''),
            OtherValue (StringValue ValueStateKnown ''b''),
            OtherValue (StringValue ValueStateKnown ''c'')])
   \<and> ValueFromTerraform example_env (ListType (Some (OtherType CheckedType)))
       (list_of_str [str ''a'', str ''bad'', str ''c'']) = Inl (ElemError ''bad value'')"
proof -
  have t: "TerraformType example_env (OtherType ty) = Inr tftypes_String" for ty
    by (simp add: example_env_def)
  have ty: "Type (list_of_str xs) = Some (tftypes_List tftypes_String)" for xs
    by (simp add: list_of_str_def)
  have pl: "payload (list_of_str xs) = SeqData xs" for xs
    by (simp add: list_of_str_def)
  have known: "IsFullyKnown (list_of_str [str ''a'', str ''b'', str ''c''])"
    by (simp add: list_of_str_def str_def)
  have all: "ValueFromTerraform example_env (ListType (Some (OtherType StringType)))
       (list_of_str [str ''a'', str ''b'', str ''c'']) =
     Inr (ListValue (Some (OtherType StringType)) ValueStateKnown
           [OtherValue (StringValue ValueStateKnown ''a''),
            OtherValue (StringValue ValueStateKnown ''b''),
            OtherValue (StringValue ValueStateKnown ''c'')])"
    using ListType_ValueFromTerraform_elements
            [OF t [of StringType] ty [of "[str ''a'', str ''b'', str ''c'']"] pl, THEN conjunct1]
    by (simp add: example_simps)
  have first: "ValueFromTerraform example_env (ListType (Some (OtherType CheckedType)))
       (list_of_str [str ''a'', str ''bad'', str ''c'']) = Inl (ElemError ''bad value'')"
    using ListType_ValueFromTerraform_elements
            [OF t [of CheckedType] ty [of "[str ''a'', str ''bad'', str ''c'']"] pl,
             THEN conjunct2, rule_format, of 1]
    by (simp add: example_simps)
  from known all first show ?thesis by simp
qed

text \<open>
  C3, as amended. For a list, map or set type: a wire value whose type is absent converts
  to Null (whatever the element type); with a non-nil element type and a wire value of
  matching type, a value that is itself unknown converts to Unknown and a null value
  converts to Null; every other wire value of matching type whose children all convert,
  be it fully known or with unknown children, converts to a Known value with as many
  elements as the wire collection has children (for a map: with the same keys).
\<close>

theorem ValueFromTerraform_states:
  assumes "TerraformType env e = Inr et"
  shows
   "(Type inp = None \<longrightarrow>
       ValueFromTerraform env (ListType elemType) inp = Inr (ListValue elemType ValueStateNull [])
     \<and> ValueFromTerraform env (MapType elemType) inp = Inr (MapValue elemType ValueStateNull [])
     \<and> ValueFromTerraform env (SetType elemType) inp = Inr (SetValue elemType ValueStateNull []))
  \<and> (\<not> IsKnown inp \<longrightarrow>
       (Type inp = Some (tftypes_List et) \<longrightarrow>
          ValueFromTerraform env (ListType (Some e)) inp = Inr (ListValue (Some e) ValueStateUnknown []))
     \<and> (Type inp = Some (tftypes_Map et) \<longrightarrow>
          ValueFromTerraform env (MapType (Some e)) inp = Inr (MapValue (Some e) ValueStateUnknown []))
     \<and> (Type inp = Some (tftypes_Set et) \<longrightarrow>
          ValueFromTerraform env (SetType (Some e)) inp = Inr (SetValue (Some e) ValueStateUnknown [])))
  \<and> (IsNull inp \<longrightarrow>
       (Type inp = Some (tftypes_List et) \<longrightarrow>
          ValueFromTerraform env (ListType (Some e)) inp = Inr (ListValue (Some e) ValueStateNull []))
     \<and> (Type inp = Some (tftypes_Map et) \<longrightarrow>
          ValueFromTerraform env (MapType (Some e)) inp = Inr (MapValue (Some e) ValueStateNull []))
     \<and> (Type inp = Some (tftypes_Set et) \<longrightarrow>
          ValueFromTerraform env (SetType (Some e)) inp = Inr (SetValue (Some e) ValueStateNull [])))
  \<and> (\<forall>val. payload inp = SeqData val \<and> (\<forall>x \<in> set val. \<not> isl (ValueFromTerraform env e x)) \<longrightarrow>
       (Type inp = Some (tftypes_List et) \<longrightarrow>
          (\<exists>elems. ValueFromTerraform env (ListType (Some e)) inp = Inr (ListValue (Some e) ValueStateKnown elems)
             \<and> length elems = length val))
     \<and> (Type inp = Some (tftypes_Set et) \<longrightarrow>
          (\<exists>elems. ValueFromTerraform env (SetType (Some e)) inp = Inr (SetValue (Some e) ValueStateKnown elems)
             \<and> length elems = length val)))
  \<and> (\<forall>val. payload inp = MapData val \<and> distinct (map fst val)
         \<and> (\<forall>kv \<in> set val. \<not> isl (ValueFromTerraform env e (snd kv))) \<longrightarrow>
       Type inp = Some (tftypes_Map et) \<longrightarrow>
          (\<exists>elems. ValueFromTerraform env (MapType (Some e)) inp = Inr (MapValue (Some e) ValueStateKnown elems)
             \<and> map fst elems = map fst val \<and> length elems = length val))"
proof -
  have absent: "Type inp = None \<longrightarrow>
       ValueFromTerraform env (ListType elemType) inp = Inr (ListValue elemType ValueStateNull [])
     \<and> ValueFromTerraform env (MapType elemType) inp = Inr (MapValue elemType ValueStateNull [])
     \<and> ValueFromTerraform env (SetType elemType) inp = Inr (SetValue elemType ValueStateNull [])"
    by (simp add: NewListNull_def NewMapNull_def NewSetNull_def)
  have unknown: "\<not> IsKnown inp \<longrightarrow>
       (Type inp = Some (tftypes_List et) \<longrightarrow>
          ValueFromTerraform env (ListType (Some e)) inp = Inr (ListValue (Some e) ValueStateUnknown []))
     \<and> (Type inp = Some (tftypes_Map et) \<longrightarrow>
          ValueFromTerraform env (MapType (Some e)) inp = Inr (MapValue (Some e) ValueStateUnknown []))
     \<and> (Type inp = Some (tftypes_Set et) \<longrightarrow>
          ValueFromTerraform env (SetType (Some e)) inp = Inr (SetValue (Some e) ValueStateUnknown []))"
    using assms by (simp add: NewListUnknown_def NewMapUnknown_def NewSetUnknown_def)
  have null: "IsNull inp \<longrightarrow>
       (Type inp = Some (tftypes_List et) \<longrightarrow>
          ValueFromTerraform env (ListType (Some e)) inp = Inr (ListValue (Some e) ValueStateNull []))
     \<and> (Type inp = Some (tftypes_Map et) \<longrightarrow>
          ValueFromTerraform env (MapType (Some e)) inp = Inr (MapValue (Some e) ValueStateNull []))
     \<and> (Type inp = Some (tftypes_Set et) \<longrightarrow>
          ValueFromTerraform env (SetType (Some e)) inp = Inr (SetValue (Some e) ValueStateNull []))"
    using assms by (simp add: NewListNull_def NewMapNull_def NewSetNull_def IsNull_def IsKnown_def)
  have seq: "\<forall>val. payload inp = SeqData val \<and> (\<forall>x \<in> set val. \<not> isl (ValueFromTerraform env e x)) \<longrightarrow>
       (Type inp = Some (tftypes_List et) \<longrightarrow>
          (\<exists>elems. ValueFromTerraform env (ListType (Some e)) inp = Inr (ListValue (Some e) ValueStateKnown elems)
             \<and> length elems = length val))
     \<and> (Type inp = Some (tftypes_Set et) \<longrightarrow>
          (\<exists>elems. ValueFromTerraform env (SetType (Some e)) inp = Inr (SetValue (Some e) ValueStateKnown elems)
             \<and> length elems = length val))"
    using assms
    by (simp add: IsKnown_def IsNull_def As_slice_def NewListValueMust_def NewSetValueMust_def
        convert_elems_all)
  have entries: "\<forall>val. payload inp = MapData val \<and> distinct (map fst val)
         \<and> (\<forall>kv \<in> set val. \<not> isl (ValueFromTerraform env e (snd kv))) \<longrightarrow>
       Type inp = Some (tftypes_Map et) \<longrightarrow>
          (\<exists>elems. ValueFromTerraform env (MapType (Some e)) inp = Inr (MapValue (Some e) ValueStateKnown elems)
             \<and> map fst elems = map fst val \<and> length elems = length val)"
    using assms
    by (simp add: IsKnown_def IsNull_def As_map_def NewMapValueMust_def convert_entries_all comp_def)
  from absent unknown null seq entries show ?thesis by blast
qed

theorem ValueFromTerraform_states_witness:
  "ValueFromTerraform example_env (ListType None) (Value None NullData) = Inr (ListValue None ValueStateNull [])
   \<and> ValueFromTerraform example_env (SetType (Some (OtherType StringType)))
       (Value (Some (tftypes_Set tftypes_String)) UnknownData) =
     Inr (SetValue (Some (OtherType StringType)) ValueStateUnknown [])
   \<and> ValueFromTerraform example_env (MapType (Some (OtherType StringType)))
       (Value (Some (tftypes_Map tftypes_String)) NullData) =
     Inr (MapValue (Some (OtherType StringType)) ValueStateNull [])
   \<and> ValueFromTerraform example_env (ListType (Some (OtherType StringType)))
       (list_of_str [str ''a'', str ''b'']) =
     Inr (ListValue (Some (OtherType StringType)) ValueStateKnown
           [OtherValue (StringValue ValueStateKnown ''a''), OtherValue (StringValue ValueStateKnown ''b'')])
   \<and> ValueFromTerraform example_env (MapType (Some (OtherType StringType)))
       (map_of_str [(''x'', str ''1''), (''y'', str ''2'')]) =
     Inr (MapValue (Some (OtherType StringType)) ValueStateKnown
           [(''x'', OtherValue (StringValue ValueStateKnown ''1'')),
            (''y'', OtherValue (StringValue ValueStateKnown ''2''))])"
proof -
  have t: "TerraformType example_env (OtherType StringType) = Inr tftypes_String"
    by (simp add: example_env_def)
  note states = ValueFromTerraform_states [OF t]
  have absent: "ValueFromTerraform example_env (ListType None) (Value None NullData)
                = Inr (ListValue None ValueStateNull [])"
    using states [where inp = "Value None NullData" and elemType = None] by simp
  have unknown: "ValueFromTerraform example_env (SetType (Some (OtherType StringType)))
       (Value (Some (tftypes_Set tftypes_String)) UnknownData) =
     Inr (SetValue (Some (OtherType StringType)) ValueStateUnknown [])"
    using states [where inp = "Value (Some (tftypes_Set tftypes_String)) UnknownData"]
    by (simp add: IsKnown_def)
  have null: "ValueFromTerraform example_env (MapType (Some (OtherType StringType)))
       (Value (Some (tftypes_Map tftypes_String)) NullData) =
     Inr (MapValue (Some (OtherType StringType)) ValueStateNull [])"
    using states [where inp = "Value (Some (tftypes_Map tftypes_String)) NullData"]
    by (simp add: IsNull_def)
  have list: "ValueFromTerraform example_env (ListType (Some (OtherType StringType)))
       (list_of_str [str ''a'', str ''b'']) =
     Inr (ListValue (Some (OtherType StringType)) ValueStateKnown
           [OtherValue (StringValue ValueStateKnown ''a''), OtherValue (StringValue ValueStateKnown ''b'')])"
    using states [where inp = "list_of_str [str ''a'', str ''b'']"]
    by (simp add: example_simps)
  have entries: "ValueFromTerraform example_env (MapType (Some (OtherType StringType)))
       (map_of_str [(''x'', str ''1''), (''y'', str ''2'')]) =
     Inr (MapValue (Some (OtherType StringType)) ValueStateKnown
           [(''x'', OtherValue (StringValue ValueStateKnown ''1'')),
            (''y'', OtherValue (StringValue ValueStateKnown ''2''))])"
    using states [where inp = "map_of_str [(''x'', str ''1''), (''y'', str ''2'')]"]
    by (simp add: example_simps)
  from absent unknown null list entries show ?thesis by simp
qed

text \<open>
  The claim as stated fails: a list of matching type with an unknown child is not fully
  known, and it converts to a Known value, not to Unknown.
\<close>

theorem ValueFromTerraform_states_counterexample:
  "\<not> IsFullyKnown (list_of_str [str ''a'', unknown_str])
   \<and> ValueFromTerraform example_env (ListType (Some (OtherType StringType)))
       (list_of_str [str ''a'', unknown_str]) =
     Inr (ListValue (Some (OtherType StringType)) ValueStateKnown
           [OtherValue (StringValue ValueStateKnown ''a''), OtherValue (StringValue ValueStateUnknown [])])"
  by (simp add: example_simps)

section \<open>Validation\<close>

lemma SetType_duplicates_eq:
  "SetType_duplicates env path x rest diags =
     diags @ replicate (count_list rest x) (duplicate_diagnostic env path x)"
  by (induction rest arbitrary: diags)
     (simp_all add: Value_Equal_def AddAttributeError_def duplicate_diagnostic_def)





lemma SetType_validate_elems_prefix:
  "set diags \<subseteq> set (SetType_validate_elems env validatableType conv path elems diags)"
proof (induction elems arbitrary: diags)
  case Nil
  then show ?case by simp
next
  case (Cons elem rest)
  have step: "set diags \<subseteq> set (SetType_validate_elems env validatableType conv path rest (diags @ more))"
    for more
    using Cons.IH [of "diags @ more"] by auto
  show ?case
    using Cons.IH [of diags] step
    by (auto simp: SetType_duplicates_eq AddAttributeError_def split: option.splits sum.splits)
qed

lemma SetType_validate_elems_duplicate:
  "i < length elems \<Longrightarrow> IsFullyKnown (elems ! i) \<Longrightarrow> elems ! i \<in> set (drop (Suc i) elems) \<Longrightarrow>
   validatableType = None \<or> (\<forall>k \<le> i. IsFullyKnown (elems ! k) \<longrightarrow> \<not> isl (conv (elems ! k))) \<Longrightarrow>
   duplicate_diagnostic env path (elems ! i)
     \<in> set (SetType_validate_elems env validatableType conv path elems diags)"
proof (induction elems arbitrary: i diags)
  case Nil
  then show ?case by simp
next
  case (Cons elem rest)
  have head: "IsFullyKnown elem \<Longrightarrow> validatableType \<noteq> None \<Longrightarrow> \<exists>ev. conv elem = Inr ev"
    using Cons.prems(4) by (cases "conv elem") auto
  show ?case
  proof (cases i)
    case 0
    with Cons.prems have known: "IsFullyKnown elem" and "elem \<in> set rest"
      by auto
    then have "count_list rest elem \<noteq> 0"
      by (simp add: count_list_0_iff)
    then have dup: "0 < count_list rest elem"
      by simp
    have "duplicate_diagnostic env path elem \<in> set (SetType_duplicates env path elem rest ds)" for ds
      using dup by (simp add: SetType_duplicates_eq)
    with SetType_validate_elems_prefix
    have "duplicate_diagnostic env path elem
            \<in> set (SetType_validate_elems env validatableType conv path rest
                     (SetType_duplicates env path elem rest ds))" for ds
      by blast
    with 0 known head show ?thesis
      by (cases validatableType) auto
  next
    case (Suc n)
    have n: "n < length rest" "IsFullyKnown (rest ! n)" "rest ! n \<in> set (drop (Suc n) rest)"
      using Suc Cons.prems by auto
    have before: "validatableType = None \<or> (\<forall>k \<le> n. IsFullyKnown (rest ! k) \<longrightarrow> \<not> isl (conv (rest ! k)))"
      using Suc Cons.prems(4) by auto
    note IH = Cons.IH [OF n before]
    from Suc IH head show ?thesis
      by (cases validatableType; cases "IsFullyKnown elem") auto
  qed
qed


lemma is_duplicate_error_duplicate_diagnostic:
  "is_duplicate_error env v (duplicate_diagnostic env path x) \<longleftrightarrow> Value_String env x = Value_String env v"
  by (simp add: is_duplicate_error_def duplicate_diagnostic_def)


text \<open>
  C8, as amended. For a list, map or set type, Validate returns no diagnostics for a wire
  value whose type is absent, and for a wire value of the collection's wire kind that is
  itself unknown or null.
\<close>

theorem Validate_unknown_or_null:
  "(Type inp = None \<longrightarrow>
       Validate env (ListType elemType) inp path = []
     \<and> Validate env (MapType elemType) inp path = []
     \<and> Validate env (SetType elemType) inp path = [])
   \<and> (\<not> IsKnown inp \<or> IsNull inp \<longrightarrow>
       (\<forall>t. Type inp = Some t \<longrightarrow>
          (Is_List t \<longrightarrow> Validate env (ListType elemType) inp path = [])
        \<and> (Is_Map t \<longrightarrow> Validate env (MapType elemType) inp path = [])
        \<and> (Is_Set t \<longrightarrow> Validate env (SetType elemType) inp path = [])))"
  by simp

theorem Validate_unknown_or_null_witness:
  "Validate example_env (ListType (Some (OtherType CheckedType))) (Value None NullData) test_path = []
   \<and> Validate example_env (SetType (Some (OtherType CheckedType)))
       (Value (Some (tftypes_Set tftypes_String)) UnknownData) test_path = []
   \<and> Validate example_env (MapType (Some (OtherType CheckedType)))
       (Value (Some (tftypes_Map tftypes_String)) NullData) test_path = []"
proof -
  have absent: "Validate example_env (ListType (Some (OtherType CheckedType))) (Value None NullData) test_path = []"
    using Validate_unknown_or_null [where inp = "Value None NullData"] by simp
  have unknown: "Validate example_env (SetType (Some (OtherType CheckedType)))
       (Value (Some (tftypes_Set tftypes_String)) UnknownData) test_path = []"
    using Validate_unknown_or_null [where inp = "Value (Some (tftypes_Set tftypes_String)) UnknownData"]
    by (simp add: IsKnown_def)
  have null: "Validate example_env (MapType (Some (OtherType CheckedType)))
       (Value (Some (tftypes_Map tftypes_String)) NullData) test_path = []"
    using Validate_unknown_or_null [where inp = "Value (Some (tftypes_Map tftypes_String)) NullData"]
    by (simp add: IsNull_def)
  from absent unknown null show ?thesis by simp
qed

text \<open>
  The claim as stated fails: a set with an unknown child is not fully known, and its two
  equal known children are reported; and a null value that is not of the list kind is
  reported by ListType.Validate.
\<close>

theorem Validate_unknown_or_null_counterexample:
  "\<not> IsFullyKnown (set_of_str [str ''a'', str ''a'', unknown_str])
   \<and> Validate example_env (SetType (Some (OtherType StringType)))
       (set_of_str [str ''a'', str ''a'', unknown_str]) test_path =
     [Diagnostic SeverityError (Some test_path) ''Duplicate Set Element''
        ''This attribute contains duplicate values of: a'']
   \<and> IsNull (Value (Some tftypes_String) NullData)
   \<and> Validate example_env (ListType (Some (OtherType StringType)))
       (Value (Some tftypes_String) NullData) test_path =
     [Diagnostic SeverityError (Some test_path) ''List Type Validation Error''
        (unexpected_error_detail @ ''error'')]"
  by (simp add: example_simps)

text \<open>
  C1, as amended. Let a set wire value have children \<^verbatim>\<open>elems\<close>, two of them at distinct
  positions \<^verbatim>\<open>i < j\<close> fully known and equal, and let no conversion of a fully known child
  up to position \<^verbatim>\<open>i\<close> fail when the element type is validated. Then SetType.Validate
  records a duplicate-element error that names the duplicated value. (Nothing is said
  here about the path of that error: the source passes the path given to Validate, the
  set's own, and notes that it is to point at the element later.)
\<close>

theorem SetType_Validate_duplicate:
  assumes "Type inp = Some t" and "Is_Set t" and "payload inp = SeqData elems"
    and "i < j" and "j < length elems" and "elems ! i = elems ! j" and "IsFullyKnown (elems ! i)"
    and "\<forall>e. elemType = Some e \<and> isValidatable env e \<longrightarrow>
           (\<forall>k \<le> i. IsFullyKnown (elems ! k) \<longrightarrow> \<not> isl (ValueFromTerraform env e (elems ! k)))"
  shows "\<exists>d \<in> set (Validate env (SetType elemType) inp path). is_duplicate_error env (elems ! j) d"
proof -
  have i: "i < length elems" using assms by simp
  have "drop (Suc i) elems ! (j - Suc i) = elems ! j"
    and "j - Suc i < length (drop (Suc i) elems)"
    using assms(4,5) by simp_all
  then have "elems ! j \<in> set (drop (Suc i) elems)"
    by (metis nth_mem)
  then have later: "elems ! i \<in> set (drop (Suc i) elems)"
    using assms(6) by simp
  have loop: "validatableType = None \<or> (\<forall>k \<le> i. IsFullyKnown (elems ! k) \<longrightarrow> \<not> isl (conv (elems ! k))) \<Longrightarrow>
      duplicate_diagnostic env path (elems ! i)
        \<in> set (SetType_validate_elems env validatableType conv path elems [])" for validatableType conv
    using SetType_validate_elems_duplicate [OF i assms(7) later] by blast
  have "duplicate_diagnostic env path (elems ! i) \<in> set (Validate env (SetType elemType) inp path)"
  proof (cases elemType)
    case None
    with assms(1,2,3) loop [of None] show ?thesis
      by (simp add: IsKnown_def IsNull_def As_slice_def)
  next
    case (Some e)
    show ?thesis
    proof (cases "isValidatable env e")
      case True
      with Some assms(8) have "\<forall>k \<le> i. IsFullyKnown (elems ! k) \<longrightarrow> \<not> isl (ValueFromTerraform env e (elems ! k))"
        by simp
      with loop [of "Some (\<lambda>elem p. Validate env e elem p)" "\<lambda>elem. ValueFromTerraform env e elem"]
      show ?thesis using Some True assms(1,2,3)
        by (simp add: IsKnown_def IsNull_def As_slice_def)
    next
      case False
      with Some assms(1,2,3) loop [of None] show ?thesis
        by (simp add: IsKnown_def IsNull_def As_slice_def)
    qed
  qed
  moreover have "is_duplicate_error env (elems ! j) (duplicate_diagnostic env path (elems ! i))"
    using assms(6) by (simp add: is_duplicate_error_duplicate_diagnostic)
  ultimately show ?thesis by blast
qed

theorem SetType_Validate_duplicate_witness:
  "\<exists>d \<in> set (Validate example_env (SetType (Some (OtherType CheckedType)))
            (set_of_str [str ''a'', str ''a'', str ''b'']) test_path).
     is_duplicate_error example_env (str ''a'') d"
proof -
  let ?elems = "[str ''a'', str ''a'', str ''b'']"
  have h1: "Type (set_of_str ?elems) = Some (tftypes_Set tftypes_String)"
    by (simp add: set_of_str_def)
  have h2: "Is_Set (tftypes_Set tftypes_String)" by simp
  have h3: "payload (set_of_str ?elems) = SeqData ?elems"
    by (simp add: set_of_str_def)
  have h4: "(0::nat) < 1" by simp
  have h5: "1 < length ?elems" by simp
  have h6: "?elems ! 0 = ?elems ! 1" by simp
  have h7: "IsFullyKnown (?elems ! 0)" by (simp add: str_def)
  have h8: "\<forall>e. Some (OtherType CheckedType) = Some e \<and> isValidatable example_env e \<longrightarrow>
              (\<forall>k \<le> 0. IsFullyKnown (?elems ! k) \<longrightarrow> \<not> isl (ValueFromTerraform example_env e (?elems ! k)))"
    by (simp add: example_simps)
  show ?thesis
    using SetType_Validate_duplicate [OF h1 h2 h3 h4 h5 h6 h7 h8, of test_path]
    by simp
qed

text \<open>
  The claim as stated fails twice: the one diagnostic for the duplicated value is
  addressed at the set's path, not at that path extended by an element-value step; and
  when the conversion of the first child fails, the validation ends with no duplicate
  diagnostic at all.
\<close>

theorem SetType_Validate_duplicate_counterexample:
  "Validate example_env (SetType (Some (OtherType StringType)))
     (set_of_str [str ''a'', str ''a'', str ''b'']) test_path =
   [Diagnostic SeverityError (Some test_path) ''Duplicate Set Element''
      ''This attribute contains duplicate values of: a'']
   \<and> test_path \<noteq> AtSetValue test_path (OtherValue (StringValue ValueStateKnown ''a''))
   \<and> Validate example_env (SetType (Some (OtherType CheckedType)))
       (set_of_str [str ''bad'', str ''bad'', str ''a'']) test_path =
     [Diagnostic SeverityError (Some test_path) ''Set Type Validation Error''
        (unexpected_error_detail @ ''error'')]"
  by (simp add: example_simps)







end
